theory Spec2Isabelle
  imports Main "HOL-Library.Sublist" "HOL-Library.AList"
begin

section \<open>The HTTP client and session of a10\_client/axapi\_http.py\<close>

text \<open>
  The module is Python 2 code (\<^verbatim>\<open>xrange\<close>, \<^verbatim>\<open>iteritems\<close>,
  \<^verbatim>\<open>json.dumps(..., encoding=...)\<close>). In Python 2 the target of
  \<^verbatim>\<open>except ... as e\<close> stays bound after the handler, which matters for the
  \<^verbatim>\<open>raise e\<close> that follows the retry loop.

  Effects are explicit: every function takes the \<open>world\<close> (the requests put on the wire,
  the number of 100ms sleeps, the store of parameter mappings) and returns it updated, and an
  exception is the \<open>Inl\<close> branch of the result. Everything outside the module (the network,
  library functions, the work-partition helper) is a field of the environment \<open>env\<close>.
  The calls of the logger have no effect on any of this and are left out.
\<close>

subsection \<open>Values\<close>

text \<open>Decoded JSON, which is also the type of the values of a parameter mapping. Numbers
  are never inspected by the module.\<close>

datatype json =
    JNull
  | JBool bool
  | JNum int
  | JStr string
  | JArr "json list"
  | JObj "(string \<times> json) list"

type_synonym pdict = "(string \<times> json) list"

type_synonym hdict = "(string \<times> string) list"

text \<open>Exceptions. \<open>SocketError\<close> is \<^verbatim>\<open>socket.error\<close> and \<open>ConnectionError\<close> is
  \<^verbatim>\<open>requests.exceptions.ConnectionError\<close> (with their subclasses); both derive from
  \<^verbatim>\<open>IOError\<close> and so carry an \<^verbatim>\<open>errno\<close> attribute, which may be \<^verbatim>\<open>None\<close>,
  and both carry their string form. \<open>OtherException\<close> is an exception of any other class.
  The \<^verbatim>\<open>ValueError\<close> of the file-argument check is the error the specification calls
  InvalidArgument. All of them are subclasses of \<^verbatim>\<open>Exception\<close>; interrupts such as
  \<^verbatim>\<open>KeyboardInterrupt\<close> are not modelled.\<close>

datatype exn =
    SocketError "int option" string
  | ConnectionError "int option" string
  | OtherException string
  | ValueError string
  | TypeError string
  | KeyError string
  | UnboundLocalError string
  | ApiError string string json
  | AuthSchemaError string string json

fun exn_errno :: "exn \<Rightarrow> int option" where
  "exn_errno (SocketError n s) = n"
| "exn_errno (ConnectionError n s) = n"
| "exn_errno _ = None"

fun exn_str :: "exn \<Rightarrow> string" where
  "exn_str (SocketError n s) = s"
| "exn_str (ConnectionError n s) = s"
| "exn_str (OtherException s) = s"
| "exn_str (ValueError s) = s"
| "exn_str (TypeError s) = s"
| "exn_str (KeyError s) = s"
| "exn_str (UnboundLocalError s) = s"
| "exn_str (ApiError m p b) = m @ '' '' @ p"
| "exn_str (AuthSchemaError m p b) = m @ '' '' @ p"

text \<open>The classes named by \<^verbatim>\<open>except (socket.error, requests.exceptions.ConnectionError)\<close>.\<close>

fun caught :: "exn \<Rightarrow> bool" where
  "caught (SocketError n s) = True"
| "caught (ConnectionError n s) = True"
| "caught _ = False"

subsection \<open>Strings\<close>

text \<open>\<^verbatim>\<open>'%s' % n\<close> for an integer: its decimal digits.\<close>

definition digit_char :: "nat \<Rightarrow> char" where
  "digit_char d = ''0123456789'' ! d"

function dec_digits :: "nat \<Rightarrow> string" where
  "dec_digits n =
     (if n < 10 then [digit_char n] else dec_digits (n div 10) @ [digit_char (n mod 10)])"
  by pat_completeness auto
termination
  by (relation "measure (\<lambda>n. n)") auto

declare dec_digits.simps [simp del]

definition str_int :: "int \<Rightarrow> string" where
  "str_int i = (if i < 0 then CHR ''-'' # dec_digits (nat (- i)) else dec_digits (nat i))"

text \<open>\<^verbatim>\<open>s in t\<close> on strings: \<open>s\<close> occurs in \<open>t\<close> as a contiguous run.\<close>

fun startswith :: "string \<Rightarrow> string \<Rightarrow> bool" where
  "startswith t [] = True"
| "startswith [] (c # s) = False"
| "startswith (d # t) (c # s) = (d = c \<and> startswith t s)"

fun str_contains :: "string \<Rightarrow> string \<Rightarrow> bool" where
  "str_contains s [] = (s = [])"
| "str_contains s (d # t) = (startswith (d # t) s \<or> str_contains s t)"

text \<open>\<^verbatim>\<open>k.replace('_', '-')\<close>.\<close>

definition replace_underscores :: "string \<Rightarrow> string" where
  "replace_underscores k = map (\<lambda>c. if c = CHR ''_'' then CHR ''-'' else c) k"

subsection \<open>Operators on decoded JSON\<close>

text \<open>\<^verbatim>\<open>k in r\<close>: key membership on a mapping, element membership on a list, substring
  on a string, \<^verbatim>\<open>TypeError\<close> on \<^verbatim>\<open>None\<close>, booleans and numbers.\<close>

fun py_in :: "string \<Rightarrow> json \<Rightarrow> exn + bool" where
  "py_in k (JObj d) = Inr (map_of d k \<noteq> None)"
| "py_in k (JArr xs) = Inr (JStr k \<in> set xs)"
| "py_in k (JStr s) = Inr (str_contains k s)"
| "py_in k JNull = Inl (TypeError ''argument of type NoneType is not iterable'')"
| "py_in k (JBool b) = Inl (TypeError ''argument of type bool is not iterable'')"
| "py_in k (JNum n) = Inl (TypeError ''argument of type int is not iterable'')"

text \<open>\<^verbatim>\<open>r[k]\<close> with a string key: lookup on a mapping (\<^verbatim>\<open>KeyError\<close> when absent),
  \<^verbatim>\<open>TypeError\<close> on every other value.\<close>

fun py_getitem :: "json \<Rightarrow> string \<Rightarrow> exn + json" where
  "py_getitem (JObj d) k = (case map_of d k of None \<Rightarrow> Inl (KeyError k) | Some v \<Rightarrow> Inr v)"
| "py_getitem (JArr xs) k = Inl (TypeError ''list indices must be integers, not str'')"
| "py_getitem (JStr s) k = Inl (TypeError ''string indices must be integers'')"
| "py_getitem JNull k = Inl (TypeError ''NoneType object has no attribute __getitem__'')"
| "py_getitem (JBool b) k = Inl (TypeError ''bool object has no attribute __getitem__'')"
| "py_getitem (JNum n) k = Inl (TypeError ''int object has no attribute __getitem__'')"

text \<open>Sequencing of computations that may raise.\<close>

definition and_then :: "exn + 'a \<Rightarrow> ('a \<Rightarrow> exn + 'b) \<Rightarrow> exn + 'b" where
  "and_then m f = (case m of Inl e \<Rightarrow> Inl e | Inr x \<Rightarrow> f x)"

subsection \<open>Requests, responses, the world\<close>

text \<open>What \<^verbatim>\<open>requests.request\<close> is given: the \<^verbatim>\<open>data=\<close> payload, or the
  \<^verbatim>\<open>files=\<close> mapping with its \<^verbatim>\<open>file\<close> part (name, content) and its
  \<^verbatim>\<open>json\<close> part (the payload). The payload is the JSON text of a parameter mapping,
  represented by the mapping it serialises; \<^verbatim>\<open>None\<close> when there are no parameters.\<close>

datatype body =
    Data "pdict option"
  | Files string "string option" "pdict option"

record wire_request =
  rq_method :: string
  rq_url :: string
  rq_body :: body
  rq_headers :: hdict

text \<open>A response: its status code and what \<^verbatim>\<open>z.json()\<close> gives (\<open>None\<close> when the body is
  not JSON and \<^verbatim>\<open>z.json()\<close> raises \<^verbatim>\<open>ValueError\<close>).\<close>

record response =
  status_code :: int
  json_body :: "json option"

datatype outcome = Returns response | Raises exn

type_synonym addr = nat

text \<open>The store holds the parameter mappings, which Python passes by reference; a new
  mapping takes the next free address. The default \<^verbatim>\<open>params={}\<close> of each method is one
  mapping object created when the class is defined.\<close>

record world =
  sent :: "wire_request list"
  slept :: nat
  heap :: "addr \<Rightarrow> pdict"
  next_free :: addr

definition alloc :: "pdict \<Rightarrow> world \<Rightarrow> addr \<times> world" where
  "alloc d w = (next_free w, w\<lparr>heap := (heap w)(next_free w := d), next_free := Suc (next_free w)\<rparr>)"

definition request_default_params :: addr where "request_default_params = 0"
definition get_default_params :: addr where "get_default_params = 1"
definition post_default_params :: addr where "post_default_params = 2"
definition put_default_params :: addr where "put_default_params = 3"
definition delete_default_params :: addr where "delete_default_params = 4"

record client =
  url_base :: string
  retry_errnos :: "int list"
  retry_err_strings :: "string list"

record session =
  http :: client
  username :: string
  password :: string
  session_id :: "string option"

text \<open>The environment of the module:
  \<^item> \<open>net\<close>: what \<^verbatim>\<open>requests.request\<close> does, as a function of all requests put on the
    wire so far, the current one last;
  \<^item> \<open>VERSION\<close>: \<^verbatim>\<open>acos_client.VERSION\<close>;
  \<^item> \<open>merge_dicts\<close>: \<^verbatim>\<open>acos_client.v21.axapi_http.merge_dicts\<close>, which returns a new
    mapping computed from the contents of its two arguments;
  \<^item> \<open>py_str\<close>: \<^verbatim>\<open>str\<close> on a decoded JSON value;
  \<^item> \<open>partition_active\<close>: \<^verbatim>\<open>self.client.partition.active()\<close>, which may raise, and
    which reaches the session and the network through the client object.\<close>

record env =
  net :: "wire_request list \<Rightarrow> outcome"
  VERSION :: string
  merge_dicts :: "pdict \<Rightarrow> pdict \<Rightarrow> pdict"
  py_str :: "json \<Rightarrow> string"
  partition_active :: "session \<Rightarrow> world \<Rightarrow> exn option \<times> session \<times> world"

subsection \<open>HttpClient\<close>

definition HEADERS :: "string \<Rightarrow> hdict" where
  "HEADERS version =
     [(''Content-type'', ''application/json''),
      (''User-Agent'', ''ACOS-Client-AGENT-'' @ version)]"

text \<open>\<^verbatim>\<open>HttpClient.__init__\<close>. \<open>errorcode\<close> is the table \<^verbatim>\<open>errno.errorcode\<close> of the
  platform. The \<^verbatim>\<open>timeout\<close> argument is not used by the constructor and is left out.
  \<^verbatim>\<open>protocol is 'http'\<close> compares object identity, which CPython decides by value for
  such interned literals.\<close>

definition HttpClient_init ::
  "(int \<Rightarrow> string option) \<Rightarrow> string \<Rightarrow> int option \<Rightarrow> string \<Rightarrow> int list option \<Rightarrow> client" where
  "HttpClient_init errorcode host port protocol retry_errno_list =
     (let port1 = (case port of
                     None \<Rightarrow> if protocol = ''http'' then 80 else 443
                   | Some p \<Rightarrow> p);
          errnos = (case retry_errno_list of None \<Rightarrow> [] | Some l \<Rightarrow> [] @ l)
      in \<lparr> url_base = protocol @ ''://'' @ host @ '':'' @ str_int port1,
           retry_errnos = errnos,
           retry_err_strings =
             [''BadStatusLine''] @
             map (\<lambda>n. ''[Errno '' @ str_int n @ '']'') errnos @
             map (\<lambda>n. the (errorcode n)) (filter (\<lambda>n. errorcode n \<noteq> None) errnos) \<rparr>)"

text \<open>The condition of the handler at lines 121-122:
  \<^verbatim>\<open>e.errno in self.retry_errnos or any(s in str(e) for s in self.retry_err_strings)\<close>.\<close>

definition retryable :: "client \<Rightarrow> exn \<Rightarrow> bool" where
  "retryable c e =
     ((case exn_errno e of None \<Rightarrow> False | Some n \<Rightarrow> n \<in> set (retry_errnos c)) \<or>
      list_ex (\<lambda>s. str_contains s (exn_str e)) (retry_err_strings c))"

text \<open>The local variables of \<^verbatim>\<open>request\<close> that the loop assigns; \<open>None\<close> is an unbound
  variable for \<open>e_var\<close> and \<open>z_var\<close>.\<close>

record loop_vars =
  last_e :: "exn option"
  e_var :: "exn option"
  z_var :: "response option"

text \<open>The loop \<^verbatim>\<open>for i in xrange(0, 1500)\<close> with \<open>n\<close> iterations left. An iteration puts
  the request on the wire; a response leaves the loop (\<^verbatim>\<open>break\<close>), a caught and retryable
  error sleeps and goes on (\<^verbatim>\<open>continue\<close>), any other error is raised.\<close>

fun attempts ::
  "env \<Rightarrow> client \<Rightarrow> wire_request \<Rightarrow> nat \<Rightarrow> loop_vars \<Rightarrow> world \<Rightarrow> (exn + loop_vars) \<times> world" where
  "attempts env c rq 0 v w = (Inr v, w)"
| "attempts env c rq (Suc n) v w =
     (let w1 = w\<lparr>sent := sent w @ [rq]\<rparr> in
      case net env (sent w1) of
        Returns z \<Rightarrow> (Inr (v\<lparr>last_e := None, z_var := Some z\<rparr>), w1)
      | Raises e \<Rightarrow>
          if caught e then
            if retryable c e then
              attempts env c rq n (v\<lparr>last_e := Some e, e_var := Some e\<rparr>)
                (w1\<lparr>slept := Suc (slept w1)\<rparr>)
            else (Inl e, w1)
          else (Inl e, w1))"

text \<open>Lines 106-133: the loop, then \<^verbatim>\<open>if last_e is not None: raise e\<close>.\<close>

definition send_with_retries ::
  "env \<Rightarrow> client \<Rightarrow> wire_request \<Rightarrow> world \<Rightarrow> (exn + response) \<times> world" where
  "send_with_retries env c rq w =
     (case attempts env c rq 1500 \<lparr>last_e = None, e_var = None, z_var = None\<rparr> w of
        (Inl e, w1) \<Rightarrow> (Inl e, w1)
      | (Inr v, w1) \<Rightarrow>
          (case last_e v of
             Some l \<Rightarrow>
               (case e_var v of
                  Some e \<Rightarrow> (Inl e, w1)
                | None \<Rightarrow> (Inl (UnboundLocalError ''e''), w1))
           | None \<Rightarrow>
               (case z_var v of
                  Some z \<Rightarrow> (Inr z, w1)
                | None \<Rightarrow> (Inl (UnboundLocalError ''z''), w1))))"

text \<open>\<^verbatim>\<open>dict(pairs)\<close> and \<^verbatim>\<open>d.update(other)\<close>: a later pair replaces an earlier
  one with the same key.\<close>

definition dict_of_pairs :: "(string \<times> json) list \<Rightarrow> pdict" where
  "dict_of_pairs kvs = fold (\<lambda>(k, v) d. AList.update k v d) kvs []"

definition dict_update :: "hdict \<Rightarrow> hdict \<Rightarrow> hdict" where
  "dict_update d hs = fold (\<lambda>(k, v) d. AList.update k v d) hs d"

text \<open>Lines 72-75: with \<^verbatim>\<open>axapi_args\<close>, \<^verbatim>\<open>params\<close> is rebound to a new mapping, the
  merge of the caller's mapping and the reformatted arguments.\<close>

definition merge_axapi_args :: "env \<Rightarrow> addr \<Rightarrow> pdict option \<Rightarrow> world \<Rightarrow> addr \<times> world" where
  "merge_axapi_args env params axapi_args w =
     (case axapi_args of
        None \<Rightarrow> (params, w)
      | Some args \<Rightarrow>
          (case alloc (dict_of_pairs (map (\<lambda>(k, v). (replace_underscores k, v)) args)) w of
             (formatted, wa) \<Rightarrow> alloc (merge_dicts env (heap wa params) (heap wa formatted)) wa))"

text \<open>Lines 82-84: a copy of the class headers, updated with the caller's headers.\<close>

definition make_headers :: "env \<Rightarrow> hdict option \<Rightarrow> hdict" where
  "make_headers env headers =
     (case headers of
        None \<Rightarrow> HEADERS (VERSION env)
      | Some hs \<Rightarrow> if hs \<noteq> [] then dict_update (HEADERS (VERSION env)) hs else HEADERS (VERSION env))"

text \<open>Lines 86-93: a non-empty mapping is copied (\<^verbatim>\<open>params.copy()\<close>) and the copy is
  serialised.\<close>

definition make_payload :: "addr \<Rightarrow> world \<Rightarrow> pdict option \<times> world" where
  "make_payload params w =
     (if heap w params \<noteq> []
      then (case alloc (heap w params) w of (params_copy, wc) \<Rightarrow> (Some (heap wc params_copy), wc))
      else (None, w))"

text \<open>Lines 67-104: the merge of \<^verbatim>\<open>axapi_args\<close>, the check of the file arguments, the
  headers, the payload and the request to send. With a file the payload travels as the
  \<^verbatim>\<open>json\<close> part and both spellings of the content-type header are dropped.\<close>

definition prepare ::
  "env \<Rightarrow> client \<Rightarrow> string \<Rightarrow> string \<Rightarrow> addr \<Rightarrow> hdict option \<Rightarrow> string option \<Rightarrow>
   string option \<Rightarrow> pdict option \<Rightarrow> world \<Rightarrow> (exn + wire_request) \<times> world" where
  "prepare env c method api_url params headers file_name file_content axapi_args w =
     (case merge_axapi_args env params axapi_args w of
        (params1, w1) \<Rightarrow>
          if (file_name = None \<and> file_content \<noteq> None) \<or> (file_name \<noteq> None \<and> file_content = None)
          then (Inl (ValueError ''file_name and file_content must both be populated if one is''), w1)
          else
            (case make_payload params1 w1 of
               (payload, w2) \<Rightarrow>
                 (case file_name of
                    None \<Rightarrow>
                      (Inr \<lparr> rq_method = method, rq_url = url_base c @ api_url,
                             rq_body = Data payload, rq_headers = make_headers env headers \<rparr>, w2)
                  | Some fname \<Rightarrow>
                      (Inr \<lparr> rq_method = method, rq_url = url_base c @ api_url,
                             rq_body = Files fname file_content payload,
                             rq_headers = AList.delete ''Content-Type''
                               (AList.delete ''Content-type'' (make_headers env headers)) \<rparr>,
                       w2))))"

text \<open>Modelled from the spec: \<^verbatim>\<open>raise_axapi_ex\<close> of the sibling module
  \<^verbatim>\<open>responses\<close>, which is not part of the sources at hand. The specification says that
  a nested status field equal to "fail" raises a structured API exception carrying the
  method, the path and the body. The value is the exception raised.\<close>

definition raise_axapi_ex :: "json \<Rightarrow> string \<Rightarrow> string \<Rightarrow> exn" where
  "raise_axapi_ex r method api_url = ApiError method api_url r"

text \<open>Modelled from the spec: \<^verbatim>\<open>raise_axapi_auth_error\<close> of the same module. The
  specification says that a body with an authorization-schema marker raises a structured
  authentication-error exception.\<close>

definition raise_axapi_auth_error :: "json \<Rightarrow> string \<Rightarrow> string \<Rightarrow> hdict option \<Rightarrow> exn" where
  "raise_axapi_auth_error r method api_url headers = AuthSchemaError method api_url r"

text \<open>Lines 149-150: \<^verbatim>\<open>'response' in r and 'status' in r['response']\<close>, and then
  \<^verbatim>\<open>r['response']['status'] == 'fail'\<close>.\<close>

definition reports_fail :: "json \<Rightarrow> exn + bool" where
  "reports_fail r =
     and_then (py_in ''response'' r) (\<lambda>b1.
       if b1 then
         and_then (py_getitem r ''response'') (\<lambda>resp.
         and_then (py_in ''status'' resp) (\<lambda>b2.
           if b2 then
             and_then (py_getitem r ''response'') (\<lambda>resp1.
             and_then (py_getitem resp1 ''status'') (\<lambda>st. Inr (st = JStr ''fail'')))
           else Inr False))
       else Inr False)"

text \<open>Lines 135-157: the result of \<^verbatim>\<open>request\<close> once a response is there. \<open>Inr None\<close> is
  the \<^verbatim>\<open>None\<close> returned for status 204, \<open>Inr (Some (JObj []))\<close> the empty mapping.\<close>

definition normalise :: "string \<Rightarrow> string \<Rightarrow> hdict option \<Rightarrow> response \<Rightarrow> exn + json option" where
  "normalise method api_url headers z =
     (if status_code z = 204 then Inr None
      else
        case json_body z of
          None \<Rightarrow>
            if status_code z = 200 then Inr (Some (JObj []))
            else Inl (ValueError ''No JSON object could be decoded'')
        | Some r \<Rightarrow>
            and_then (reports_fail r) (\<lambda>failed.
              if failed then Inl (raise_axapi_ex r method api_url)
              else
                and_then (py_in ''authorizationschema'' r) (\<lambda>b.
                  if b then Inl (raise_axapi_auth_error r method api_url headers)
                  else Inr (Some r))))"

text \<open>\<^verbatim>\<open>HttpClient.request\<close>. \<open>params\<close> is the address of the caller's mapping; a call
  that leaves the parameter out passes the default mapping of the method.\<close>

definition request ::
  "env \<Rightarrow> client \<Rightarrow> string \<Rightarrow> string \<Rightarrow> addr \<Rightarrow> hdict option \<Rightarrow> string option \<Rightarrow>
   string option \<Rightarrow> pdict option \<Rightarrow> world \<Rightarrow> (exn + json option) \<times> world" where
  "request env c method api_url params headers file_name file_content axapi_args w =
     (case prepare env c method api_url params headers file_name file_content axapi_args w of
        (Inl e, w1) \<Rightarrow> (Inl e, w1)
      | (Inr rq, w1) \<Rightarrow>
          (case send_with_retries env c rq w1 of
             (Inl e, w2) \<Rightarrow> (Inl e, w2)
           | (Inr z, w2) \<Rightarrow> (normalise method api_url headers z, w2)))"

text \<open>The wrappers; \<open>params = None\<close> is the call that leaves the parameter out.\<close>

definition get ::
  "env \<Rightarrow> client \<Rightarrow> string \<Rightarrow> addr option \<Rightarrow> hdict option \<Rightarrow> world \<Rightarrow> (exn + json option) \<times> world" where
  "get env c api_url params headers w =
     request env c ''GET'' api_url
       (case params of None \<Rightarrow> get_default_params | Some a \<Rightarrow> a) headers None None None w"

definition post ::
  "env \<Rightarrow> client \<Rightarrow> string \<Rightarrow> addr option \<Rightarrow> hdict option \<Rightarrow> world \<Rightarrow> (exn + json option) \<times> world" where
  "post env c api_url params headers w =
     request env c ''POST'' api_url
       (case params of None \<Rightarrow> post_default_params | Some a \<Rightarrow> a) headers None None None w"

definition put ::
  "env \<Rightarrow> client \<Rightarrow> string \<Rightarrow> addr option \<Rightarrow> hdict option \<Rightarrow> world \<Rightarrow> (exn + json option) \<times> world" where
  "put env c api_url params headers w =
     request env c ''PUT'' api_url
       (case params of None \<Rightarrow> put_default_params | Some a \<Rightarrow> a) headers None None None w"

definition delete ::
  "env \<Rightarrow> client \<Rightarrow> string \<Rightarrow> addr option \<Rightarrow> hdict option \<Rightarrow> world \<Rightarrow> (exn + json option) \<times> world" where
  "delete env c api_url params headers w =
     request env c ''DELETE'' api_url
       (case params of None \<Rightarrow> delete_default_params | Some a \<Rightarrow> a) headers None None None w"

subsection \<open>Session\<close>

text \<open>\<^verbatim>\<open>Session.close\<close>. The call of \<^verbatim>\<open>partition.active()\<close> stands in
  \<^verbatim>\<open>try: ... except Exception: pass\<close>, so what it raises is dropped; the token is read
  again after it. The logoff request stands in \<^verbatim>\<open>try: ... finally: self.session_id = None\<close>.
  \<open>Inr None\<close> is the bare \<^verbatim>\<open>return\<close> of an unauthenticated session.\<close>

definition Session_close :: "env \<Rightarrow> session \<Rightarrow> world \<Rightarrow> (exn + json option) \<times> session \<times> world" where
  "Session_close env s w =
     (case partition_active env s w of
        (dropped, s1, w1) \<Rightarrow>
          (case session_id s1 of
             None \<Rightarrow> (Inr None, s1, w1)
           | Some sid \<Rightarrow>
               (case post env (http s1) ''/axapi/v3/logoff'' None
                       (Some [(''Authorization'', ''A10 '' @ sid)]) w1 of
                  (res, w2) \<Rightarrow> (res, s1\<lparr>session_id := None\<rparr>, w2))))"

text \<open>The payload of the login request.\<close>

definition credentials :: "string \<Rightarrow> string \<Rightarrow> pdict" where
  "credentials uname pword =
     [(''credentials'', JObj [(''username'', JStr uname), (''password'', JStr pword)])]"

text \<open>Lines 200-205: what \<^verbatim>\<open>authenticate\<close> does with the result \<open>r\<close> of the login
  request. \<^verbatim>\<open>"authresponse" in r\<close> raises \<^verbatim>\<open>TypeError\<close> when \<open>r\<close> is the
  \<^verbatim>\<open>None\<close> of a 204 response.\<close>

definition store_token :: "env \<Rightarrow> session \<Rightarrow> json option \<Rightarrow> (exn + json option) \<times> session" where
  "store_token env s r =
     (case r of
        None \<Rightarrow> (Inl (TypeError ''argument of type NoneType is not iterable''), s)
      | Some j \<Rightarrow>
          (case py_in ''authresponse'' j of
             Inl e \<Rightarrow> (Inl e, s)
           | Inr present \<Rightarrow>
               if present then
                 (case and_then (py_getitem j ''authresponse'') (\<lambda>a. py_getitem a ''signature'') of
                    Inl e \<Rightarrow> (Inl e, s)
                  | Inr sig \<Rightarrow> (Inr r, s\<lparr>session_id := Some (py_str env sig)\<rparr>))
               else (Inr r, s\<lparr>session_id := None\<rparr>)))"

text \<open>\<^verbatim>\<open>Session.authenticate\<close>: the payload is built first, an authenticated session is
  closed (an error of the logoff goes to the caller), then the login request is sent.\<close>

definition Session_authenticate ::
  "env \<Rightarrow> session \<Rightarrow> string \<Rightarrow> string \<Rightarrow> world \<Rightarrow> (exn + json option) \<times> session \<times> world" where
  "Session_authenticate env s uname pword w =
     (case alloc (credentials uname pword) w of
        (payload, w0) \<Rightarrow>
          (case (if session_id s \<noteq> None
                 then (case Session_close env s w0 of (res, s1, w1) \<Rightarrow>
                         (case res of Inl e \<Rightarrow> (Some e, s1, w1) | Inr r \<Rightarrow> (None, s1, w1)))
                 else (None, s, w0)) of
             (Some e, s1, w1) \<Rightarrow> (Inl e, s1, w1)
           | (None, s1, w1) \<Rightarrow>
               (case post env (http s1) ''/axapi/v3/auth'' (Some payload) None w1 of
                  (Inl e, w2) \<Rightarrow> (Inl e, s1, w2)
                | (Inr r, w2) \<Rightarrow>
                    (case store_token env s1 r of (res, s2) \<Rightarrow> (res, s2, w2)))))"

text \<open>The property \<^verbatim>\<open>Session.id\<close>.\<close>

definition Session_id :: "env \<Rightarrow> session \<Rightarrow> world \<Rightarrow> (exn + string option) \<times> session \<times> world" where
  "Session_id env s w =
     (if session_id s = None then
        (case Session_authenticate env s (username s) (password s) w of
           (Inl e, s1, w1) \<Rightarrow> (Inl e, s1, w1)
         | (Inr r, s1, w1) \<Rightarrow> (Inr (session_id s1), s1, w1))
      else (Inr (session_id s), s, w))"

subsection \<open>The retry condition in the words of the specification\<close>

text \<open>An error is retried when it is a socket-level or connection error whose errno is in
  the configured retry set, or whose string form contains one of the configured retry
  markers. This is the reading of the specification, to be compared with the handler
  (\<open>caught\<close> and \<open>retryable\<close>).\<close>

definition spec_retryable :: "client \<Rightarrow> exn \<Rightarrow> bool" where
  "spec_retryable c e \<longleftrightarrow>
     caught e \<and>
     ((\<exists>n. exn_errno e = Some n \<and> n \<in> set (retry_errnos c)) \<or>
      (\<exists>m\<in>set (retry_err_strings c). \<exists>ps ss. exn_str e = ps @ m @ ss))"

subsection \<open>Example inputs\<close>

text \<open>A world with nothing sent and the five default mappings empty; an environment around a
  given network; a client that retries on errno 104; an unauthenticated session.\<close>

definition example_world :: world where
  "example_world = \<lparr> sent = [], slept = 0, heap = (\<lambda>a. []), next_free = 5 \<rparr>"

definition example_env :: "(wire_request list \<Rightarrow> outcome) \<Rightarrow> env" where
  "example_env f =
     \<lparr> net = f, VERSION = ''1.0'',
       merge_dicts = (\<lambda>d1 d2. fold (\<lambda>(k, v) d. AList.update k v d) d2 d1),
       py_str = (\<lambda>j. case j of JStr t \<Rightarrow> t | _ \<Rightarrow> ''None''),
       partition_active = (\<lambda>s w. (None, s, w)) \<rparr>"

definition example_errorcode :: "int \<Rightarrow> string option" where
  "example_errorcode n = (if n = 104 then Some ''ECONNRESET'' else None)"

definition example_client :: client where
  "example_client = HttpClient_init example_errorcode ''192.0.2.1'' None ''https'' (Some [104])"

definition example_session :: session where
  "example_session =
     \<lparr> http = example_client, username = ''admin'', password = ''a10'', session_id = None \<rparr>"

text \<open>Networks: one that resets every connection, one that answers every request with a
  given response, one that refuses every request with an error that is not retried.\<close>

definition net_reset :: "wire_request list \<Rightarrow> outcome" where
  "net_reset h = Raises (SocketError (Some 104) ''[Errno 104] Connection reset by peer'')"

definition net_reply :: "int \<Rightarrow> json option \<Rightarrow> wire_request list \<Rightarrow> outcome" where
  "net_reply code b h = Returns \<lparr> status_code = code, json_body = b \<rparr>"

definition net_refuse :: "wire_request list \<Rightarrow> outcome" where
  "net_refuse h = Raises (OtherException ''SSL handshake failed'')"

definition example_request :: wire_request where
  "example_request =
     \<lparr> rq_method = ''GET'', rq_url = url_base example_client @ ''/axapi/v3/version'',
       rq_body = Data None, rq_headers = HEADERS ''1.0'' \<rparr>"

text \<open>The login request of the example session, a server that answers every request with
  status 200 and the empty JSON object, and one that answers with a signature.\<close>

definition example_login :: wire_request where
  "example_login =
     \<lparr> rq_method = ''POST'', rq_url = url_base example_client @ ''/axapi/v3/auth'',
       rq_body = Data (Some (credentials ''admin'' ''a10'')), rq_headers = HEADERS ''1.0'' \<rparr>"

definition soft_env :: env where
  "soft_env = example_env (net_reply 200 (Some (JObj [])))"

definition login_env :: env where
  "login_env =
     example_env (net_reply 200 (Some (JObj [(''authresponse'', JObj [(''signature'', JStr ''abc'')])])))"

text \<open>The world after one login of the example session that needed no retry: the login
  request is on the wire, and the payload and its copy are in the store.\<close>

definition after_login :: "world \<Rightarrow> world" where
  "after_login w =
     w\<lparr>sent := sent w @ [example_login],
       heap := (heap w)(next_free w := credentials ''admin'' ''a10'',
                        Suc (next_free w) := credentials ''admin'' ''a10''),
       next_free := Suc (Suc (next_free w))\<rparr>"

section \<open>Properties\<close>

subsection \<open>Strings\<close>

lemma startswith_prefix: "startswith t s = prefix s t"
  by (induction t s rule: startswith.induct) auto

lemma str_contains_sublist: "str_contains s t = sublist s t"
  by (induction t) (auto simp: startswith_prefix sublist_Cons_right)

lemma str_contains_iff: "str_contains s t \<longleftrightarrow> (\<exists>ps ss. t = ps @ s @ ss)"
  by (simp add: str_contains_sublist sublist_def)

subsection \<open>The retry loop\<close>

lemma attempts_frame:
  "attempts env c rq n v w = (res, w') \<Longrightarrow> heap w' = heap w \<and> next_free w' = next_free w"
proof (induction n arbitrary: v w)
  case 0
  then show ?case by simp
next
  case (Suc n)
  then show ?case
    by (auto simp: Let_def split: outcome.splits if_splits)
qed

lemma attempts_retry_step:
  "net env (sent w @ [rq]) = Raises e \<Longrightarrow> caught e \<Longrightarrow> retryable c e \<Longrightarrow>
   attempts env c rq (Suc n) v w =
     attempts env c rq n (v\<lparr>last_e := Some e, e_var := Some e\<rparr>)
       (w\<lparr>sent := sent w @ [rq], slept := Suc (slept w)\<rparr>)"
  by (simp add: Let_def)

lemma attempts_raise_step:
  "net env (sent w @ [rq]) = Raises e \<Longrightarrow> \<not> (caught e \<and> retryable c e) \<Longrightarrow>
   attempts env c rq (Suc n) v w = (Inl e, w\<lparr>sent := sent w @ [rq]\<rparr>)"
  by (auto simp: Let_def)

lemma attempts_return_step:
  "net env (sent w @ [rq]) = Returns z \<Longrightarrow>
   attempts env c rq (Suc n) v w =
     (Inr (v\<lparr>last_e := None, z_var := Some z\<rparr>), w\<lparr>sent := sent w @ [rq]\<rparr>)"
  by (simp add: Let_def)

text \<open>Whatever the loop does, it puts the same request on the wire between one and \<open>n\<close>
  times and nothing else.\<close>

lemma attempts_sent:
  "attempts env c rq n v w = (res, w') \<Longrightarrow>
   \<exists>k\<le>n. sent w' = sent w @ replicate k rq \<and> (0 < n \<longrightarrow> 0 < k)"
proof (induction n arbitrary: v w)
  case 0
  then show ?case by simp
next
  case (Suc n)
  show ?case
  proof (cases "net env (sent w @ [rq])")
    case (Returns z)
    with Suc.prems have "sent w' = sent w @ replicate 1 rq" by (auto simp: Let_def)
    then show ?thesis by (intro exI[of _ 1]) simp
  next
    case (Raises e)
    show ?thesis
    proof (cases "caught e \<and> retryable c e")
      case False
      with Raises Suc.prems have "sent w' = sent w @ replicate 1 rq"
        by (auto simp: Let_def split: if_splits)
      then show ?thesis by (intro exI[of _ 1]) simp
    next
      case True
      with Raises Suc.prems have
        "attempts env c rq n (v\<lparr>last_e := Some e, e_var := Some e\<rparr>)
           (w\<lparr>sent := sent w @ [rq], slept := Suc (slept w)\<rparr>) = (res, w')"
        by (simp add: Let_def)
      from Suc.IH[OF this] obtain k where
        k: "k \<le> n" "sent w' = (sent w @ [rq]) @ replicate k rq" by auto
      then have "sent w' = sent w @ replicate (Suc k) rq" by simp
      with k(1) show ?thesis by (intro exI[of _ "Suc k"]) simp
    qed
  qed
qed

text \<open>When every one of the \<open>Suc m\<close> iterations fails with a caught, retryable error, the
  loop runs to its end, and both \<open>last_e\<close> and \<open>e\<close> hold the error of the last iteration.\<close>

lemma attempts_all_fail:
  assumes "\<forall>k<Suc m. \<exists>e. net env (sent w @ replicate (Suc k) rq) = Raises e \<and> caught e \<and> retryable c e"
      and "net env (sent w @ replicate (Suc m) rq) = Raises e_last"
  shows "attempts env c rq (Suc m) v w =
           (Inr (v\<lparr>last_e := Some e_last, e_var := Some e_last\<rparr>),
            w\<lparr>sent := sent w @ replicate (Suc m) rq, slept := slept w + Suc m\<rparr>)"
  using assms
proof (induction m arbitrary: v w)
  case 0
  then show ?case by (auto simp: Let_def)
next
  case (Suc m)
  from Suc.prems(1) obtain e0 where
    e0: "net env (sent w @ [rq]) = Raises e0" "caught e0" "retryable c e0"
    by (metis replicate_0 replicate_Suc zero_less_Suc)
  let ?w1 = "w\<lparr>sent := sent w @ [rq], slept := Suc (slept w)\<rparr>"
  let ?v1 = "v\<lparr>last_e := Some e0, e_var := Some e0\<rparr>"
  have step: "attempts env c rq (Suc (Suc m)) v w = attempts env c rq (Suc m) ?v1 ?w1"
    using attempts_retry_step[OF e0] .
  have a: "\<forall>k<Suc m. \<exists>e. net env (sent ?w1 @ replicate (Suc k) rq) = Raises e \<and> caught e \<and> retryable c e"
  proof (intro allI impI)
    fix k assume "k < Suc m"
    then have "Suc k < Suc (Suc m)" by simp
    with Suc.prems(1) obtain e where
      "net env (sent w @ replicate (Suc (Suc k)) rq) = Raises e \<and> caught e \<and> retryable c e"
      by blast
    then show "\<exists>e. net env (sent ?w1 @ replicate (Suc k) rq) = Raises e \<and> caught e \<and> retryable c e"
      by simp
  qed
  have b: "net env (sent ?w1 @ replicate (Suc m) rq) = Raises e_last"
    using Suc.prems(2) by simp
  show ?case
    unfolding step using Suc.IH[OF a b, of ?v1] by (simp add: replicate_app_Cons_same)
qed

subsection \<open>Exhausting the retries\<close>

lemma cap_Suc: "(1500::nat) = Suc 1499"
  by simp

lemma example_prepare:
  "prepare (example_env f) example_client method api_url request_default_params None None None None
     example_world =
   (Inr \<lparr> rq_method = method, rq_url = url_base example_client @ api_url, rq_body = Data None,
          rq_headers = HEADERS ''1.0'' \<rparr>, example_world)"
  by (simp add: prepare_def merge_axapi_args_def make_payload_def make_headers_def
      example_env_def example_world_def request_default_params_def)

lemma example_client_errnos: "retry_errnos example_client = [104]"
  by (simp add: example_client_def HttpClient_init_def)

text \<open>
  Claim C1. A request passes the check of its file arguments, so that \<open>rq\<close> is the request to
  send and \<open>w1\<close> the world when the loop starts. If each of the 1500 attempts fails with an
  error that the handler catches and classifies as retryable, then \<^verbatim>\<open>request\<close> puts
  \<open>rq\<close> on the wire exactly 1500 times (sleeping after each failure) and raises the error
  of the 1500th attempt: after the loop \<^verbatim>\<open>last_e\<close> is set and the variable \<^verbatim>\<open>e\<close>
  that is raised still holds the error caught last.
\<close>

theorem retries_exhausted_raises_last_error:
  assumes "prepare env c method api_url params headers file_name file_content axapi_args w = (Inr rq, w1)"
      and "\<forall>k<1500. \<exists>e. net env (sent w1 @ replicate (Suc k) rq) = Raises e \<and> caught e \<and> retryable c e"
      and "net env (sent w1 @ replicate 1500 rq) = Raises e_last"
  shows "request env c method api_url params headers file_name file_content axapi_args w =
           (Inl e_last, w1\<lparr>sent := sent w1 @ replicate 1500 rq, slept := slept w1 + 1500\<rparr>)"
proof -
  have "attempts env c rq (Suc 1499) \<lparr>last_e = None, e_var = None, z_var = None\<rparr> w1 =
          (Inr \<lparr>last_e = Some e_last, e_var = Some e_last, z_var = None\<rparr>,
           w1\<lparr>sent := sent w1 @ replicate (Suc 1499) rq, slept := slept w1 + Suc 1499\<rparr>)"
    using attempts_all_fail[of 1499 env w1 rq c e_last "\<lparr>last_e = None, e_var = None, z_var = None\<rparr>"]
      assms(2,3) by (simp only: cap_Suc[symmetric]) simp
  then have "send_with_retries env c rq w1 =
          (Inl e_last, w1\<lparr>sent := sent w1 @ replicate 1500 rq, slept := slept w1 + 1500\<rparr>)"
    by (simp add: send_with_retries_def cap_Suc[symmetric])
  with assms(1) show ?thesis by (simp add: request_def)
qed

theorem retries_exhausted_witness:
  "request (example_env net_reset) example_client ''GET'' ''/axapi/v3/version''
     request_default_params None None None None example_world =
   (Inl (SocketError (Some 104) ''[Errno 104] Connection reset by peer''),
    example_world\<lparr>sent := replicate 1500
        \<lparr> rq_method = ''GET'', rq_url = url_base example_client @ ''/axapi/v3/version'',
          rq_body = Data None, rq_headers = HEADERS ''1.0'' \<rparr>,
      slept := 1500\<rparr>)"
  using retries_exhausted_raises_last_error[where env = "example_env net_reset"
      and e_last = "SocketError (Some 104) ''[Errno 104] Connection reset by peer''",
      OF example_prepare, of "''GET''" "''/axapi/v3/version''"]
  by (simp add: example_env_def net_reset_def retryable_def example_client_errnos example_world_def)

lemma retryable_spec: "caught e \<and> retryable c e \<longleftrightarrow> spec_retryable c e"
proof -
  have "(case exn_errno e of None \<Rightarrow> False | Some n \<Rightarrow> n \<in> set (retry_errnos c)) \<longleftrightarrow>
        (\<exists>n. exn_errno e = Some n \<and> n \<in> set (retry_errnos c))"
    by (cases "exn_errno e") auto
  moreover have "list_ex (\<lambda>s. str_contains s (exn_str e)) (retry_err_strings c) \<longleftrightarrow>
        (\<exists>m\<in>set (retry_err_strings c). \<exists>ps ss. exn_str e = ps @ m @ ss)"
    by (simp add: list_ex_iff str_contains_iff)
  ultimately show ?thesis
    by (simp add: retryable_def spec_retryable_def)
qed

lemma send_first_raise:
  "net env (sent w @ [rq]) = Raises e \<Longrightarrow> \<not> (caught e \<and> retryable c e) \<Longrightarrow>
   send_with_retries env c rq w = (Inl e, w\<lparr>sent := sent w @ [rq]\<rparr>)"
  using attempts_raise_step[of env w rq e c 1499]
  by (simp add: send_with_retries_def cap_Suc[symmetric])

lemma send_first_return:
  "net env (sent w @ [rq]) = Returns z \<Longrightarrow>
   send_with_retries env c rq w = (Inr z, w\<lparr>sent := sent w @ [rq]\<rparr>)"
  using attempts_return_step[of env w rq z c 1499]
  by (simp add: send_with_retries_def cap_Suc[symmetric])

subsection \<open>Which failures are retried\<close>

text \<open>
  Claim C2. An attempt of the loop fails with the error \<open>e\<close>. The handler retries (sleeps,
  remembers the error and goes on with the iterations that are left) exactly when \<open>e\<close> is a
  socket-level or connection error whose errno is in the retry set or whose string form
  contains one of the retry markers; any other error leaves the loop at once as the error
  raised. So, while an iteration is left, a further attempt follows the failure if and only
  if the error is retryable in this sense, and a request whose first attempt fails with any
  other error raises it after that single attempt, without a sleep.
\<close>

theorem retried_iff_retryable:
  assumes "net env (sent w @ [rq]) = Raises e"
  shows "attempts env c rq (Suc n) v w =
           (if spec_retryable c e
            then attempts env c rq n (v\<lparr>last_e := Some e, e_var := Some e\<rparr>)
                   (w\<lparr>sent := sent w @ [rq], slept := Suc (slept w)\<rparr>)
            else (Inl e, w\<lparr>sent := sent w @ [rq]\<rparr>))
       \<and> (length (sent w) + 2 \<le> length (sent (snd (attempts env c rq (Suc (Suc n)) v w)))
            \<longleftrightarrow> spec_retryable c e)
       \<and> (\<not> spec_retryable c e \<longrightarrow>
            send_with_retries env c rq w = (Inl e, w\<lparr>sent := sent w @ [rq]\<rparr>))"
proof (intro conjI impI)
  show step: "attempts env c rq (Suc n) v w =
           (if spec_retryable c e
            then attempts env c rq n (v\<lparr>last_e := Some e, e_var := Some e\<rparr>)
                   (w\<lparr>sent := sent w @ [rq], slept := Suc (slept w)\<rparr>)
            else (Inl e, w\<lparr>sent := sent w @ [rq]\<rparr>))" for n
    using assms attempts_retry_step[of env w rq e c n v] attempts_raise_step[of env w rq e c n v]
    by (simp add: retryable_spec[symmetric] del: attempts.simps)
  show "length (sent w) + 2 \<le> length (sent (snd (attempts env c rq (Suc (Suc n)) v w)))
            \<longleftrightarrow> spec_retryable c e"
  proof (cases "spec_retryable c e")
    case True
    obtain res w' where r: "attempts env c rq (Suc n) (v\<lparr>last_e := Some e, e_var := Some e\<rparr>)
                   (w\<lparr>sent := sent w @ [rq], slept := Suc (slept w)\<rparr>) = (res, w')"
      by (cases "attempts env c rq (Suc n) (v\<lparr>last_e := Some e, e_var := Some e\<rparr>)
                   (w\<lparr>sent := sent w @ [rq], slept := Suc (slept w)\<rparr>)") blast
    from attempts_sent[OF r] obtain k where "0 < k" "sent w' = (sent w @ [rq]) @ replicate k rq"
      by auto
    then have "length (sent w) + 2 \<le> length (sent w')" by simp
    with True r step[of "Suc n"] show ?thesis by (simp del: attempts.simps)
  next
    case False
    with step[of "Suc n"] show ?thesis by (simp del: attempts.simps)
  qed
  assume "\<not> spec_retryable c e"
  with assms show "send_with_retries env c rq w = (Inl e, w\<lparr>sent := sent w @ [rq]\<rparr>)"
    by (simp add: send_first_raise retryable_spec)
qed


theorem retried_iff_retryable_witness:
  "\<not> spec_retryable example_client (OtherException ''SSL handshake failed'')
   \<and> send_with_retries (example_env net_refuse) example_client example_request example_world =
       (Inl (OtherException ''SSL handshake failed''), example_world\<lparr>sent := [example_request]\<rparr>)
   \<and> spec_retryable example_client (SocketError (Some 104) ''[Errno 104] Connection reset by peer'')
   \<and> 2 \<le> length (sent (snd (attempts (example_env net_reset) example_client example_request
                (Suc (Suc 0)) \<lparr>last_e = None, e_var = None, z_var = None\<rparr> example_world)))"
proof -
  have no: "\<not> spec_retryable example_client (OtherException ''SSL handshake failed'')"
    by (simp add: spec_retryable_def)
  have yes: "spec_retryable example_client (SocketError (Some 104) ''[Errno 104] Connection reset by peer'')"
    by (simp add: spec_retryable_def example_client_errnos)
  have a: "net (example_env net_refuse) (sent example_world @ [example_request]) =
             Raises (OtherException ''SSL handshake failed'')"
    by (simp add: example_env_def net_refuse_def)
  have b: "net (example_env net_reset) (sent example_world @ [example_request]) =
             Raises (SocketError (Some 104) ''[Errno 104] Connection reset by peer'')"
    by (simp add: example_env_def net_reset_def)
  from retried_iff_retryable[OF a, of example_client] no
  have "send_with_retries (example_env net_refuse) example_client example_request example_world =
       (Inl (OtherException ''SSL handshake failed''), example_world\<lparr>sent := [example_request]\<rparr>)"
    by (simp add: example_world_def)
  moreover from retried_iff_retryable[OF b, of example_client 0
      "\<lparr>last_e = None, e_var = None, z_var = None\<rparr>"] yes
  have "2 \<le> length (sent (snd (attempts (example_env net_reset) example_client example_request
                (Suc (Suc 0)) \<lparr>last_e = None, e_var = None, z_var = None\<rparr> example_world)))"
    by (simp add: example_world_def del: attempts.simps)
  ultimately show ?thesis using no yes by simp
qed

subsection \<open>The marker BadStatusLine\<close>

text \<open>
  Claim C9. Whatever list of errnos the client is built with (also none, or the empty one),
  its retry markers contain \<open>BadStatusLine\<close>; so a socket-level or connection error whose
  string form contains \<open>BadStatusLine\<close> is retryable for every client, and the loop goes on
  after it.
\<close>

theorem bad_status_line_always_retried:
  assumes "caught e" and "exn_str e = ps @ ''BadStatusLine'' @ ss"
  shows "''BadStatusLine'' \<in> set (retry_err_strings
            (HttpClient_init errorcode host port protocol retry_errno_list))
       \<and> retryable (HttpClient_init errorcode host port protocol retry_errno_list) e
       \<and> (net env (sent w @ [rq]) = Raises e \<longrightarrow>
            attempts env (HttpClient_init errorcode host port protocol retry_errno_list) rq (Suc n) v w =
            attempts env (HttpClient_init errorcode host port protocol retry_errno_list) rq n
              (v\<lparr>last_e := Some e, e_var := Some e\<rparr>)
              (w\<lparr>sent := sent w @ [rq], slept := Suc (slept w)\<rparr>))"
proof -
  let ?c = "HttpClient_init errorcode host port protocol retry_errno_list"
  have m: "''BadStatusLine'' \<in> set (retry_err_strings ?c)"
    by (simp add: HttpClient_init_def Let_def)
  have "str_contains ''BadStatusLine'' (exn_str e)"
    using assms(2) str_contains_iff by blast
  with m have r: "retryable ?c e"
    unfolding retryable_def list_ex_iff by blast
  show ?thesis
    using m r attempts_retry_step[OF _ assms(1) r] by blast
qed

theorem bad_status_line_witness:
  "''BadStatusLine'' \<in> set (retry_err_strings
       (HttpClient_init example_errorcode ''192.0.2.1'' None ''https'' None))
   \<and> retryable (HttpClient_init example_errorcode ''192.0.2.1'' None ''https'' (Some []))
       (ConnectionError None ''('Connection aborted.', BadStatusLine())'')"
proof -
  have s: "exn_str (ConnectionError None ''('Connection aborted.', BadStatusLine())'') =
           ''('Connection aborted.', '' @ ''BadStatusLine'' @ ''())''"
    by simp
  have c: "caught (ConnectionError None ''('Connection aborted.', BadStatusLine())'')"
    by simp
  from bad_status_line_always_retried[OF c s, of example_errorcode "''192.0.2.1''" None "''https''" None]
       bad_status_line_always_retried[OF c s, of example_errorcode "''192.0.2.1''" None "''https''" "Some []"]
  show ?thesis by blast
qed

lemma alloc_world:
  "alloc d w = (a, w1) \<Longrightarrow>
   a = next_free w \<and> sent w1 = sent w \<and> slept w1 = slept w \<and> next_free w1 = Suc (next_free w) \<and>
   heap w1 a = d \<and> (\<forall>b. b \<noteq> next_free w \<longrightarrow> heap w1 b = heap w b)"
  by (auto simp: alloc_def)

lemma merge_axapi_args_world:
  assumes "merge_axapi_args env params axapi_args w = (p1, w1)"
  shows "sent w1 = sent w \<and> slept w1 = slept w \<and> next_free w \<le> next_free w1 \<and>
         (\<forall>a<next_free w. heap w1 a = heap w a)"
proof (cases axapi_args)
  case None
  with assms show ?thesis by (simp add: merge_axapi_args_def)
next
  case (Some args)
  with assms show ?thesis
    by (auto simp: merge_axapi_args_def alloc_def split: prod.splits)
qed

lemma make_payload_world:
  assumes "make_payload params w = (payload, w1)"
  shows "sent w1 = sent w \<and> slept w1 = slept w \<and> next_free w \<le> next_free w1 \<and>
         (\<forall>a<next_free w. heap w1 a = heap w a)"
  using assms by (auto simp: make_payload_def alloc_def split: if_splits)


lemma prepare_world:
  assumes "prepare env c method api_url params headers file_name file_content axapi_args w = (res, w1)"
  shows "sent w1 = sent w \<and> slept w1 = slept w \<and> next_free w \<le> next_free w1 \<and>
         (\<forall>a<next_free w. heap w1 a = heap w a)"
proof -
  obtain p1 wa where m: "merge_axapi_args env params axapi_args w = (p1, wa)"
    by (cases "merge_axapi_args env params axapi_args w") blast
  note ma = merge_axapi_args_world[OF m]
  show ?thesis
  proof (cases "(file_name = None \<and> file_content \<noteq> None) \<or> (file_name \<noteq> None \<and> file_content = None)")
    case True
    with assms m have "w1 = wa" by (simp add: prepare_def)
    with ma show ?thesis by simp
  next
    case False
    obtain pl wb where mp: "make_payload p1 wa = (pl, wb)"
      by (cases "make_payload p1 wa") blast
    from assms m False mp have "w1 = wb"
      by (cases file_name) (auto simp: prepare_def)
    with ma make_payload_world[OF mp] show ?thesis by auto
  qed
qed

lemma prepare_rejects:
  assumes "(file_name = None) \<noteq> (file_content = None)"
  shows "fst (prepare env c method api_url params headers file_name file_content axapi_args w) =
           Inl (ValueError ''file_name and file_content must both be populated if one is'')"
proof -
  obtain p1 wa where m: "merge_axapi_args env params axapi_args w = (p1, wa)"
    by (cases "merge_axapi_args env params axapi_args w") blast
  from assms have "(file_name = None \<and> file_content \<noteq> None) \<or> (file_name \<noteq> None \<and> file_content = None)"
    by auto
  with m show ?thesis by (simp add: prepare_def)
qed

lemma prepare_accepts:
  assumes "(file_name = None) = (file_content = None)"
  shows "\<exists>rq w1. prepare env c method api_url params headers file_name file_content axapi_args w =
           (Inr rq, w1) \<and> rq_method rq = method \<and> rq_url rq = url_base c @ api_url"
proof -
  obtain p1 wa where m: "merge_axapi_args env params axapi_args w = (p1, wa)"
    by (cases "merge_axapi_args env params axapi_args w") blast
  obtain pl wb where mp: "make_payload p1 wa = (pl, wb)"
    by (cases "make_payload p1 wa") blast
  from assms have "\<not> ((file_name = None \<and> file_content \<noteq> None) \<or> (file_name \<noteq> None \<and> file_content = None))"
    by auto
  with m mp show ?thesis by (cases file_name) (simp_all add: prepare_def)
qed

lemma send_with_retries_world:
  assumes "send_with_retries env c rq w = (res, w')"
  shows "heap w' = heap w \<and> next_free w' = next_free w \<and>
         (\<exists>k. 0 < k \<and> k \<le> 1500 \<and> sent w' = sent w @ replicate k rq)"
proof -
  obtain r0 w0 where a: "attempts env c rq 1500 \<lparr>last_e = None, e_var = None, z_var = None\<rparr> w = (r0, w0)"
    by (cases "attempts env c rq 1500 \<lparr>last_e = None, e_var = None, z_var = None\<rparr> w") blast
  with assms have "w' = w0"
    by (auto simp: send_with_retries_def split: sum.splits option.splits)
  with attempts_frame[OF a] attempts_sent[OF a] show ?thesis by auto
qed


lemma request_world:
  assumes "request env c method api_url params headers file_name file_content axapi_args w = (res, w')"
  shows "next_free w \<le> next_free w' \<and> (\<forall>a<next_free w. heap w' a = heap w a)"
proof -
  obtain r1 w1 where p: "prepare env c method api_url params headers file_name file_content axapi_args w = (r1, w1)"
    by (cases "prepare env c method api_url params headers file_name file_content axapi_args w") blast
  note pw = prepare_world[OF p]
  show ?thesis
  proof (cases r1)
    case (Inl e)
    with assms p have "w' = w1" by (simp add: request_def)
    with pw show ?thesis by simp
  next
    case (Inr rq)
    obtain r2 w2 where t: "send_with_retries env c rq w1 = (r2, w2)"
      by (cases "send_with_retries env c rq w1") blast
    from assms p Inr t have "w' = w2"
      by (cases r2) (simp_all add: request_def)
    with pw send_with_retries_world[OF t] show ?thesis by simp
  qed
qed

lemma request_sends:
  assumes "(file_name = None) = (file_content = None)"
  shows "\<exists>rq rest. sent (snd (request env c method api_url params headers file_name file_content axapi_args w)) =
            sent w @ rq # rest \<and> rq_method rq = method \<and> rq_url rq = url_base c @ api_url"
proof -
  from prepare_accepts[OF assms] obtain rq w1 where
    p: "prepare env c method api_url params headers file_name file_content axapi_args w = (Inr rq, w1)"
    and rq: "rq_method rq = method" "rq_url rq = url_base c @ api_url"
    by blast
  obtain r2 w2 where t: "send_with_retries env c rq w1 = (r2, w2)"
    by (cases "send_with_retries env c rq w1") blast
  from send_with_retries_world[OF t] obtain k where k: "0 < k" "sent w2 = sent w1 @ replicate k rq"
    by blast
  then obtain j where "k = Suc j" by (cases k) auto
  with k prepare_world[OF p] have s: "sent w2 = sent w @ rq # replicate j rq" by simp
  from p t have "snd (request env c method api_url params headers file_name file_content axapi_args w) = w2"
    by (cases r2) (simp_all add: request_def)
  with s rq show ?thesis by auto
qed

lemma example_send_reply:
  "send_with_retries (example_env (net_reply code b)) example_client rq example_world =
     (Inr \<lparr>status_code = code, json_body = b\<rparr>, example_world\<lparr>sent := [rq]\<rparr>)"
  using send_first_return[of "example_env (net_reply code b)" example_world rq
      "\<lparr>status_code = code, json_body = b\<rparr>" example_client]
  by (simp add: example_env_def net_reply_def example_world_def)

subsection \<open>The result of a completed request\<close>

text \<open>
  Claim C5. A request is completed: it passed the check of its file arguments and the loop
  ended with the response \<open>z\<close>. The cases are tried in the order of the code. Status 204
  gives \<^verbatim>\<open>None\<close>, the no-content result, which is not the empty mapping; otherwise a
  body that is not JSON gives the empty mapping when the status is 200, and raises the
  \<^verbatim>\<open>ValueError\<close> of the decoder for every other status.
\<close>

theorem response_normalised:
  assumes "prepare env c method api_url params headers file_name file_content axapi_args w = (Inr rq, w1)"
      and "send_with_retries env c rq w1 = (Inr z, w2)"
  shows "(status_code z = 204 \<longrightarrow>
            request env c method api_url params headers file_name file_content axapi_args w =
              (Inr None, w2))
       \<and> (status_code z = 200 \<and> json_body z = None \<longrightarrow>
            request env c method api_url params headers file_name file_content axapi_args w =
              (Inr (Some (JObj [])), w2))
       \<and> (status_code z \<noteq> 204 \<and> status_code z \<noteq> 200 \<and> json_body z = None \<longrightarrow>
            request env c method api_url params headers file_name file_content axapi_args w =
              (Inl (ValueError ''No JSON object could be decoded''), w2))
       \<and> (Inr None :: exn + json option) \<noteq> Inr (Some (JObj []))"
  using assms by (simp add: request_def normalise_def)

theorem response_normalised_witness:
  "request (example_env (net_reply 204 (Some (JObj [])))) example_client ''GET'' ''/axapi/v3/version''
      request_default_params None None None None example_world =
     (Inr None, example_world\<lparr>sent := [example_request]\<rparr>)
   \<and> request (example_env (net_reply 200 None)) example_client ''GET'' ''/axapi/v3/version''
      request_default_params None None None None example_world =
     (Inr (Some (JObj [])), example_world\<lparr>sent := [example_request]\<rparr>)
   \<and> request (example_env (net_reply 500 None)) example_client ''GET'' ''/axapi/v3/version''
      request_default_params None None None None example_world =
     (Inl (ValueError ''No JSON object could be decoded''), example_world\<lparr>sent := [example_request]\<rparr>)"
  using response_normalised[OF example_prepare example_send_reply, of 204 "Some (JObj [])" "''GET''" "''/axapi/v3/version''"]
        response_normalised[OF example_prepare example_send_reply, of 200 None "''GET''" "''/axapi/v3/version''"]
        response_normalised[OF example_prepare example_send_reply, of 500 None "''GET''" "''/axapi/v3/version''"]
  by (simp add: example_request_def)

subsection \<open>A body that reports failure\<close>

text \<open>
  Claim C6. A request is completed with a response whose body is decoded (its status is not
  204, for which the body is never read) and is a mapping with a mapping under
  \<open>response\<close> whose \<open>status\<close> is the string \<open>fail\<close>. Then \<^verbatim>\<open>request\<close> raises the API
  error made from the body, the method and the path of the request. What
  \<^verbatim>\<open>raise_axapi_ex\<close> raises is modelled from the specification.
\<close>

theorem fail_status_raises_api_error:
  assumes "prepare env c method api_url params headers file_name file_content axapi_args w = (Inr rq, w1)"
      and "send_with_retries env c rq w1 = (Inr z, w2)"
      and "status_code z \<noteq> 204"
      and "json_body z = Some (JObj body)"
      and "map_of body ''response'' = Some (JObj resp)"
      and "map_of resp ''status'' = Some (JStr ''fail'')"
  shows "request env c method api_url params headers file_name file_content axapi_args w =
           (Inl (ApiError method api_url (JObj body)), w2)"
proof -
  have "reports_fail (JObj body) = Inr True"
    using assms(5,6) by (simp add: reports_fail_def and_then_def)
  then have "normalise method api_url headers z = Inl (ApiError method api_url (JObj body))"
    using assms(3,4) by (simp add: normalise_def and_then_def raise_axapi_ex_def)
  with assms(1,2) show ?thesis by (simp add: request_def)
qed

theorem fail_status_witness:
  "request (example_env (net_reply 200 (Some (JObj [(''response'',
        JObj [(''status'', JStr ''fail''), (''err'', JObj [(''msg'', JStr ''x'')])])]))))
      example_client ''GET'' ''/axapi/v3/version'' request_default_params None None None None
      example_world =
     (Inl (ApiError ''GET'' ''/axapi/v3/version'' (JObj [(''response'',
        JObj [(''status'', JStr ''fail''), (''err'', JObj [(''msg'', JStr ''x'')])])])),
      example_world\<lparr>sent := [example_request]\<rparr>)"
  using fail_status_raises_api_error[OF example_prepare example_send_reply,
      of 200 "Some (JObj [(''response'',
        JObj [(''status'', JStr ''fail''), (''err'', JObj [(''msg'', JStr ''x'')])])])"
      "[(''response'', JObj [(''status'', JStr ''fail''), (''err'', JObj [(''msg'', JStr ''x'')])])]"
      "[(''status'', JStr ''fail''), (''err'', JObj [(''msg'', JStr ''x'')])]"
      "''GET''" "''/axapi/v3/version''"]
  by (simp add: example_request_def)

subsection \<open>The check of the file arguments\<close>

text \<open>
  Claim C7. When exactly one of file name and file content is given, \<^verbatim>\<open>request\<close>
  raises the \<^verbatim>\<open>ValueError\<close> of the check (the InvalidArgument of the specification)
  and nothing has been put on the wire and no sleep has happened. When both are given or
  both are left out, the check passes: the request is built and at least one attempt is
  made.
\<close>

theorem file_arguments_checked:
  "((file_name = None) \<noteq> (file_content = None) \<longrightarrow>
      fst (request env c method api_url params headers file_name file_content axapi_args w) =
        Inl (ValueError ''file_name and file_content must both be populated if one is'') \<and>
      sent (snd (request env c method api_url params headers file_name file_content axapi_args w)) = sent w \<and>
      slept (snd (request env c method api_url params headers file_name file_content axapi_args w)) = slept w)
   \<and> ((file_name = None) = (file_content = None) \<longrightarrow>
      (\<exists>rq w1. prepare env c method api_url params headers file_name file_content axapi_args w = (Inr rq, w1)) \<and>
      (\<exists>rq rest. sent (snd (request env c method api_url params headers file_name file_content axapi_args w)) =
          sent w @ rq # rest))"
proof (intro conjI impI)
  assume x: "(file_name = None) \<noteq> (file_content = None)"
  obtain r1 w1 where p: "prepare env c method api_url params headers file_name file_content axapi_args w = (r1, w1)"
    by (cases "prepare env c method api_url params headers file_name file_content axapi_args w") blast
  with prepare_rejects[OF x, of env c "method" "api_url" params headers axapi_args w]
  have r1: "r1 = Inl (ValueError ''file_name and file_content must both be populated if one is'')"
    by simp
  with p have rq: "request env c method api_url params headers file_name file_content axapi_args w =
      (Inl (ValueError ''file_name and file_content must both be populated if one is''), w1)"
    by (simp add: request_def)
  from rq show "fst (request env c method api_url params headers file_name file_content axapi_args w) =
        Inl (ValueError ''file_name and file_content must both be populated if one is'')"
    by simp
  from rq prepare_world[OF p]
  show "sent (snd (request env c method api_url params headers file_name file_content axapi_args w)) = sent w"
    and "slept (snd (request env c method api_url params headers file_name file_content axapi_args w)) = slept w"
    by simp_all
next
  assume y: "(file_name = None) = (file_content = None)"
  from prepare_accepts[OF y]
  show "\<exists>rq w1. prepare env c method api_url params headers file_name file_content axapi_args w = (Inr rq, w1)"
    by blast
  from request_sends[OF y]
  show "\<exists>rq rest. sent (snd (request env c method api_url params headers file_name file_content axapi_args w)) =
          sent w @ rq # rest"
    by blast
qed

theorem file_arguments_witness:
  "fst (request (example_env net_reset) example_client ''POST'' ''/axapi/v3/file/ssl-cert''
         request_default_params None (Some ''cert.pem'') None None example_world) =
     Inl (ValueError ''file_name and file_content must both be populated if one is'')
   \<and> sent (snd (request (example_env net_reset) example_client ''POST'' ''/axapi/v3/file/ssl-cert''
         request_default_params None (Some ''cert.pem'') None None example_world)) = []
   \<and> fst (request (example_env net_reset) example_client ''POST'' ''/axapi/v3/file/ssl-cert''
         request_default_params None None (Some ''PEM'') None example_world) =
     Inl (ValueError ''file_name and file_content must both be populated if one is'')"
  using file_arguments_checked[of "Some ''cert.pem''" None "example_env net_reset" example_client
          "''POST''" "''/axapi/v3/file/ssl-cert''" request_default_params None None example_world]
        file_arguments_checked[of None "Some ''PEM''" "example_env net_reset" example_client
          "''POST''" "''/axapi/v3/file/ssl-cert''" request_default_params None None example_world]
  by (simp add: example_world_def)

subsection \<open>The caller's parameter mapping\<close>

text \<open>
  Claim C8. \<^verbatim>\<open>request\<close> writes only to mappings that it creates itself (the merge with
  \<^verbatim>\<open>axapi_args\<close>, the copy that is serialised). Every mapping that exists when
  \<^verbatim>\<open>request\<close> is called, the caller's \<^verbatim>\<open>params\<close> among them, has the same contents
  when \<^verbatim>\<open>request\<close> returns or raises.
\<close>

theorem params_not_mutated:
  assumes "a < next_free w"
  shows "heap (snd (request env c method api_url params headers file_name file_content axapi_args w)) a =
           heap w a"
  using assms
    request_world[of env c "method" "api_url" params headers file_name file_content axapi_args w
      "fst (request env c method api_url params headers file_name file_content axapi_args w)"
      "snd (request env c method api_url params headers file_name file_content axapi_args w)"]
  by simp

theorem params_not_mutated_witness:
  "heap (snd (request (example_env (net_reply 200 None)) example_client ''POST'' ''/axapi/v3/slb/server''
           5 None None None (Some [(''conn_limit'', JNum 8)])
           (example_world\<lparr>heap := (heap example_world)(5 := [(''name'', JStr ''s1'')]), next_free := 6\<rparr>))) 5 =
     [(''name'', JStr ''s1'')]"
  using params_not_mutated[of 5
      "example_world\<lparr>heap := (heap example_world)(5 := [(''name'', JStr ''s1'')]), next_free := 6\<rparr>"
      "example_env (net_reply 200 None)" example_client "''POST''" "''/axapi/v3/slb/server''" 5
      None None None "Some [(''conn_limit'', JNum 8)]"]
  by simp

lemma post_sends:
  "\<exists>rq rest. sent (snd (post env c api_url params headers w)) = sent w @ rq # rest \<and>
      rq_method rq = ''POST'' \<and> rq_url rq = url_base c @ api_url"
  unfolding post_def by (rule request_sends) simp

lemma authenticate_unauthenticated:
  assumes "session_id s = None"
  shows "Session_authenticate env s uname pword w =
           (case post env (http s) ''/axapi/v3/auth'' (Some (next_free w)) None
                   (snd (alloc (credentials uname pword) w)) of
              (Inl e, w2) \<Rightarrow> (Inl e, s, w2)
            | (Inr r, w2) \<Rightarrow> (case store_token env s r of (res, s2) \<Rightarrow> (res, s2, w2)))"
  using assms by (simp add: Session_authenticate_def alloc_def)

lemma authenticate_unauthenticated_sends:
  assumes "session_id s = None"
  shows "\<exists>rq rest. sent (snd (snd (Session_authenticate env s uname pword w))) = sent w @ rq # rest \<and>
      rq_method rq = ''POST'' \<and> rq_url rq = url_base (http s) @ ''/axapi/v3/auth''"
proof -
  let ?w0 = "snd (alloc (credentials uname pword) w)"
  obtain r w2 where p: "post env (http s) ''/axapi/v3/auth'' (Some (next_free w)) None ?w0 = (r, w2)"
    by (cases "post env (http s) ''/axapi/v3/auth'' (Some (next_free w)) None ?w0") blast
  from post_sends[of env "http s" "''/axapi/v3/auth''" "Some (next_free w)" None ?w0] p
  obtain rq rest where s: "sent w2 = sent w @ rq # rest" "rq_method rq = ''POST''"
      "rq_url rq = url_base (http s) @ ''/axapi/v3/auth''"
    by (auto simp: alloc_def)
  have "snd (snd (Session_authenticate env s uname pword w)) = w2"
    using p unfolding authenticate_unauthenticated[OF assms]
    by (cases r) (auto split: prod.splits)
  with s show ?thesis by auto
qed

lemma id_unauthenticated_sends:
  assumes "session_id s = None"
  shows "\<exists>rq rest. sent (snd (snd (Session_id env s w))) = sent w @ rq # rest \<and>
      rq_method rq = ''POST'' \<and> rq_url rq = url_base (http s) @ ''/axapi/v3/auth''"
proof -
  have "snd (snd (Session_id env s w)) =
        snd (snd (Session_authenticate env s (username s) (password s) w))"
    using assms by (auto simp: Session_id_def split: prod.splits sum.splits)
  with authenticate_unauthenticated_sends[OF assms, of env "username s" "password s" w]
  show ?thesis by simp
qed

lemma close_token:
  assumes "Session_close env s w = (res, s1, w1)"
  shows "session_id s1 = None"
proof -
  obtain d sa wa where pa: "partition_active env s w = (d, sa, wa)"
    by (cases "partition_active env s w") auto
  show ?thesis
  proof (cases "session_id sa")
    case None
    with assms pa show ?thesis by (auto simp: Session_close_def)
  next
    case (Some sid)
    with assms pa show ?thesis by (auto simp: Session_close_def split: prod.splits)
  qed
qed

subsection \<open>Closing a session\<close>

text \<open>
  Claim C3. However \<^verbatim>\<open>Session.close\<close> ends, by returning or by raising the error of the
  logoff request, the session's token is absent afterwards; and since it is absent, the next
  read of \<^verbatim>\<open>Session.id\<close> authenticates afresh: it puts a login request (a POST to
  \<open>/axapi/v3/auth\<close>) on the wire.
\<close>

theorem close_clears_token:
  assumes "Session_close env s w = (res, s1, w1)"
  shows "session_id s1 = None
       \<and> (\<exists>rq rest. sent (snd (snd (Session_id env s1 w1))) = sent w1 @ rq # rest \<and>
             rq_method rq = ''POST'' \<and> rq_url rq = url_base (http s1) @ ''/axapi/v3/auth'')"
  using close_token[OF assms] id_unauthenticated_sends by blast


lemma reply_send:
  "send_with_retries (example_env (net_reply code b)) c rq w =
     (Inr \<lparr>status_code = code, json_body = b\<rparr>, w\<lparr>sent := sent w @ [rq]\<rparr>)"
  using send_first_return[of "example_env (net_reply code b)" w rq
      "\<lparr>status_code = code, json_body = b\<rparr>" c]
  by (simp add: example_env_def net_reply_def)

lemma refuse_request:
  assumes "(file_name = None) = (file_content = None)"
  shows "fst (request (example_env net_refuse) c method api_url params headers file_name
                file_content axapi_args w) = Inl (OtherException ''SSL handshake failed'')"
proof -
  from prepare_accepts[OF assms] obtain rq w1 where
    p: "prepare (example_env net_refuse) c method api_url params headers file_name file_content
          axapi_args w = (Inr rq, w1)"
    by blast
  have "send_with_retries (example_env net_refuse) c rq w1 =
          (Inl (OtherException ''SSL handshake failed''), w1\<lparr>sent := sent w1 @ [rq]\<rparr>)"
    by (rule send_first_raise) (simp_all add: example_env_def net_refuse_def)
  with p show ?thesis by (simp add: request_def)
qed

lemma example_partition: "partition_active (example_env f) s w = (None, s, w)"
  by (simp add: example_env_def)

theorem close_clears_token_witness:
  "fst (Session_close (example_env net_refuse) (example_session\<lparr>session_id := Some ''abc''\<rparr>)
          example_world) = Inl (OtherException ''SSL handshake failed'')
   \<and> session_id (fst (snd (Session_close (example_env net_refuse)
          (example_session\<lparr>session_id := Some ''abc''\<rparr>) example_world))) = None"
proof -
  let ?c = "Session_close (example_env net_refuse) (example_session\<lparr>session_id := Some ''abc''\<rparr>)
              example_world"
  have r: "fst ?c = Inl (OtherException ''SSL handshake failed'')"
    using refuse_request[of None None "http example_session" "''POST''" "''/axapi/v3/logoff''"
        post_default_params "Some [(''Authorization'', ''A10 abc'')]" None example_world]
    by (auto simp: Session_close_def example_partition post_def split: prod.splits)
  have "?c = (fst ?c, fst (snd ?c), snd (snd ?c))" by simp
  from close_clears_token[OF this] r show ?thesis by blast
qed

lemma example_session_fields:
  "session_id example_session = None" "username example_session = ''admin''"
  "password example_session = ''a10''" "http example_session = example_client"
  by (simp_all add: example_session_def)

lemma reply_authenticate:
  assumes "normalise ''POST'' ''/axapi/v3/auth'' None \<lparr>status_code = code, json_body = b\<rparr> = Inr r"
  shows "Session_authenticate (example_env (net_reply code b)) example_session ''admin'' ''a10'' w =
           (case store_token (example_env (net_reply code b)) example_session r of
              (res, s2) \<Rightarrow> (res, s2, after_login w))"
proof -
  let ?env = "example_env (net_reply code b)"
  let ?w0 = "snd (alloc (credentials ''admin'' ''a10'') w)"
  have v: "VERSION ?env = ''1.0''"
    by (simp add: example_env_def)
  have cne: "credentials ''admin'' ''a10'' \<noteq> []"
    by (simp add: credentials_def)
  have p: "prepare ?env example_client ''POST'' ''/axapi/v3/auth'' (next_free w) None None None None ?w0 =
        (Inr example_login,
         w\<lparr>heap := (heap w)(next_free w := credentials ''admin'' ''a10'',
                         Suc (next_free w) := credentials ''admin'' ''a10''),
           next_free := Suc (Suc (next_free w))\<rparr>)"
    using cne by (simp add: prepare_def merge_axapi_args_def make_payload_def make_headers_def
        alloc_def example_login_def v)
  have po: "post ?env example_client ''/axapi/v3/auth'' (Some (next_free w)) None ?w0 =
        (Inr r, after_login w)"
    using p assms by (simp add: post_def request_def reply_send after_login_def)
  show ?thesis
    unfolding authenticate_unauthenticated[OF example_session_fields(1)]
    using po by (simp add: example_session_fields)
qed

lemma soft_authenticate:
  "Session_authenticate soft_env example_session ''admin'' ''a10'' w =
     (Inr (Some (JObj [])), example_session, after_login w)"
proof -
  have n: "normalise ''POST'' ''/axapi/v3/auth'' None \<lparr>status_code = 200, json_body = Some (JObj [])\<rparr> =
        Inr (Some (JObj []))"
    by (simp add: normalise_def reports_fail_def and_then_def)
  have st: "store_token soft_env example_session (Some (JObj [])) = (Inr (Some (JObj [])), example_session)"
    by (simp add: store_token_def example_session_fields)
  show ?thesis
    using reply_authenticate[OF n, of w] st by (simp add: soft_env_def)
qed

lemma soft_read:
  "Session_id soft_env example_session w = (Inr None, example_session, after_login w)"
  by (simp add: Session_id_def example_session_fields soft_authenticate)

lemma login_authenticate:
  "Session_authenticate login_env example_session ''admin'' ''a10'' w =
     (Inr (Some (JObj [(''authresponse'', JObj [(''signature'', JStr ''abc'')])])),
      example_session\<lparr>session_id := Some ''abc''\<rparr>, after_login w)"
proof -
  let ?j = "JObj [(''authresponse'', JObj [(''signature'', JStr ''abc'')])]"
  have n: "normalise ''POST'' ''/axapi/v3/auth'' None \<lparr>status_code = 200, json_body = Some ?j\<rparr> =
        Inr (Some ?j)"
    by (simp add: normalise_def reports_fail_def and_then_def)
  have st: "store_token login_env example_session (Some ?j) =
        (Inr (Some ?j), example_session\<lparr>session_id := Some ''abc''\<rparr>)"
    by (simp add: store_token_def and_then_def login_env_def example_env_def)
  show ?thesis
    using reply_authenticate[OF n, of w] st by (simp add: login_env_def)
qed

lemma login_read:
  "Session_id login_env example_session w =
     (Inr (Some ''abc''), example_session\<lparr>session_id := Some ''abc''\<rparr>, after_login w)"
  by (simp add: Session_id_def example_session_fields login_authenticate)

subsection \<open>Reading the token twice\<close>

text \<open>
  Claim C4 says that two reads of \<^verbatim>\<open>Session.id\<close> with no close in between issue exactly
  one authenticate call, for every session. It fails for a session whose login is answered
  without a signature: against a server that answers status 200 with the empty JSON object,
  the first read returns \<^verbatim>\<open>None\<close> after one login request, and the second read sends a
  second login request; no sleep happened, so neither request is a retry.
\<close>

theorem two_reads_two_logins_counterexample:
  "fst (Session_id soft_env example_session example_world) = Inr None
   \<and> sent (snd (snd (Session_id soft_env example_session example_world))) = [example_login]
   \<and> fst (Session_id soft_env (fst (snd (Session_id soft_env example_session example_world)))
            (snd (snd (Session_id soft_env example_session example_world)))) = Inr None
   \<and> sent (snd (snd (Session_id soft_env (fst (snd (Session_id soft_env example_session example_world)))
            (snd (snd (Session_id soft_env example_session example_world)))))) =
       [example_login, example_login]
   \<and> slept (snd (snd (Session_id soft_env (fst (snd (Session_id soft_env example_session example_world)))
            (snd (snd (Session_id soft_env example_session example_world)))))) = 0"
  by (simp add: soft_read after_login_def example_world_def)

text \<open>
  Claim C4, amended. When the first read of \<^verbatim>\<open>Session.id\<close> returns a token, a second read
  with no close in between returns the same token and changes neither the session nor the
  world: it issues no request. When the session was unauthenticated before the first read,
  the state after both reads is the state after the single authenticate call of the first
  read.
\<close>

theorem token_memoized:
  assumes "Session_id env s w = (Inr (Some t), s1, w1)"
  shows "Session_id env s1 w1 = (Inr (Some t), s1, w1)
       \<and> (session_id s = None \<longrightarrow>
            (\<exists>r. Session_authenticate env s (username s) (password s) w = (Inr r, s1, w1)))"
proof (cases "session_id s")
  case None
  obtain res sa wa where a: "Session_authenticate env s (username s) (password s) w = (res, sa, wa)"
    by (cases "Session_authenticate env s (username s) (password s) w") auto
  with assms None obtain r where r: "res = Inr r" "sa = s1" "wa = w1" "session_id s1 = Some t"
    by (cases res) (auto simp: Session_id_def)
  from r(4) have "Session_id env s1 w1 = (Inr (Some t), s1, w1)"
    by (simp add: Session_id_def)
  with a r show ?thesis by simp
next
  case (Some t0)
  with assms have "s1 = s" "w1 = w" "t0 = t" by (auto simp: Session_id_def)
  with Some show ?thesis by (simp add: Session_id_def)
qed

theorem token_memoized_witness:
  "Session_id login_env example_session example_world =
     (Inr (Some ''abc''), example_session\<lparr>session_id := Some ''abc''\<rparr>, after_login example_world)
   \<and> Session_id login_env (example_session\<lparr>session_id := Some ''abc''\<rparr>) (after_login example_world) =
     (Inr (Some ''abc''), example_session\<lparr>session_id := Some ''abc''\<rparr>, after_login example_world)
   \<and> sent (after_login example_world) = [example_login]"
  using token_memoized[OF login_read[of example_world]] login_read[of example_world]
  by (simp add: after_login_def example_world_def)

lemma store_token_returns:
  "store_token env s b = (Inr r, s1) \<Longrightarrow> r = b"
  by (auto simp: store_token_def split: option.splits sum.splits if_splits)

lemma authenticate_returns:
  assumes "Session_authenticate env s uname pword w = (Inr r, s1, w1)"
  shows "\<exists>s0. store_token env s0 r = (Inr r, s1)"
proof -
  obtain pl w0 where al: "alloc (credentials uname pword) w = (pl, w0)"
    by (cases "alloc (credentials uname pword) w") auto
  obtain ce sa wa where cl: "(if session_id s \<noteq> None
                 then (case Session_close env s w0 of (res, s1, w1) \<Rightarrow>
                         (case res of Inl e \<Rightarrow> (Some e, s1, w1) | Inr r \<Rightarrow> (None, s1, w1)))
                 else (None, s, w0)) = (ce, sa, wa)"
    by (cases "(if session_id s \<noteq> None
                 then (case Session_close env s w0 of (res, s1, w1) \<Rightarrow>
                         (case res of Inl e \<Rightarrow> (Some e, s1, w1) | Inr r \<Rightarrow> (None, s1, w1)))
                 else (None, s, w0))") auto
  obtain pr wb where po: "post env (http sa) ''/axapi/v3/auth'' (Some pl) None wa = (pr, wb)"
    by (cases "post env (http sa) ''/axapi/v3/auth'' (Some pl) None wa") auto
  from assms al cl po have "ce = None \<and> pr = Inr r \<and> store_token env sa r = (Inr r, s1)"
    unfolding Session_authenticate_def
    by (cases ce; cases pr) (auto split: prod.splits dest: store_token_returns)
  then show ?thesis by blast
qed

subsection \<open>A login answered without a signature\<close>

text \<open>
  Claim C10. An authenticate call returns a mapping that has no key \<open>authresponse\<close>. Then the
  token of the session is absent afterwards, and handling such a response raises nothing and
  clears the token of any session; a read of \<^verbatim>\<open>Session.id\<close> that made this call returns
  \<^verbatim>\<open>None\<close>; and every later read of \<^verbatim>\<open>Session.id\<close>, in whatever world, puts a new
  login request on the wire.
\<close>

theorem soft_failure_not_memoized:
  assumes "Session_authenticate env s uname pword w = (Inr (Some (JObj body)), s1, w1)"
      and "map_of body ''authresponse'' = None"
  shows "session_id s1 = None
       \<and> (\<forall>s0. store_token env s0 (Some (JObj body)) =
                 (Inr (Some (JObj body)), s0\<lparr>session_id := None\<rparr>))
       \<and> (session_id s = None \<and> uname = username s \<and> pword = password s \<longrightarrow>
            Session_id env s w = (Inr None, s1, w1))
       \<and> (\<forall>w2. \<exists>rq rest. sent (snd (snd (Session_id env s1 w2))) = sent w2 @ rq # rest \<and>
             rq_method rq = ''POST'' \<and> rq_url rq = url_base (http s1) @ ''/axapi/v3/auth'')"
proof -
  have st: "store_token env s0 (Some (JObj body)) = (Inr (Some (JObj body)), s0\<lparr>session_id := None\<rparr>)" for s0
    using assms(2) by (simp add: store_token_def)
  from authenticate_returns[OF assms(1)] st have n: "session_id s1 = None" by auto
  have "Session_id env s w = (Inr None, s1, w1)"
    if "session_id s = None" "uname = username s" "pword = password s"
    using that assms(1) n by (simp add: Session_id_def)
  with n st id_unauthenticated_sends[OF n] show ?thesis by blast
qed

theorem soft_failure_witness:
  "session_id example_session = None
   \<and> Session_id soft_env example_session example_world =
       (Inr None, example_session, after_login example_world)
   \<and> (\<exists>rq rest. sent (snd (snd (Session_id soft_env example_session (after_login example_world)))) =
         sent (after_login example_world) @ rq # rest \<and> rq_method rq = ''POST'' \<and>
         rq_url rq = url_base (http example_session) @ ''/axapi/v3/auth'')"
proof -
  have k: "map_of [] ''authresponse'' = (None :: json option)" by simp
  from soft_failure_not_memoized[OF soft_authenticate[of example_world] k]
  show ?thesis by (simp add: example_session_fields)
qed

end
